theory Spec2Isabelle
  imports Complex_Main "HOL-Library.Sublist" "HOL-Library.Char_ord"
    "HOL-Library.List_Lexorder" "HOL-Library.Product_Lexorder"
begin

section \<open>Data model\<close>

text \<open>
  The dashboard script \<^verbatim>\<open>app1.py\<close> works on one pandas DataFrame \<^verbatim>\<open>df\<close>.
  A cell of the frame is a number, a string or a missing value (\<^verbatim>\<open>NaN\<close>), as
  \<^verbatim>\<open>pd.read_csv\<close> delivers them; \<^verbatim>\<open>pd.to_datetime(..., errors="coerce")\<close> later writes
  timestamps and \<^verbatim>\<open>NaT\<close> into the \<^verbatim>\<open>orderdate\<close> column. A number is its exact value:
  every int64 and every finite float64 is a rational. The arithmetic of the two number
  types is in the section on aggregation. A timestamp is its integer value (nanoseconds
  since the epoch).
\<close>

datatype cell = Num rat | Str string | NaN | Timestamp int | NaT

text \<open>\<^verbatim>\<open>isna\<close>/\<^verbatim>\<open>notna\<close>: the two missing values.\<close>

fun notna :: "cell \<Rightarrow> bool" where
  "notna NaN = False"
| "notna NaT = False"
| "notna _ = True"

text \<open>
  Every column has a dtype, which pandas fixes when the file is read or the column is
  assigned, and which a selection of rows keeps whatever rows remain: \<^verbatim>\<open>int64\<close> (whole
  numbers, none missing), \<^verbatim>\<open>float64\<close> (numbers, some of them possibly missing), text
  (\<^verbatim>\<open>object\<close> or \<^verbatim>\<open>str\<close>: a column read with a string in it) and \<^verbatim>\<open>datetime64\<close>.
\<close>

datatype dtype = Int64 | Float64 | Text | Datetime

text \<open>
  A frame is its column labels, the dtype of every column and its rows, each row
  holding one cell per label, in label order.
\<close>

record frame =
  columns :: "string list"
  dtypes :: "dtype list"
  rows :: "cell list list"


definition typed :: "frame \<Rightarrow> bool" where
  "typed df = (length (dtypes df) = length (columns df))"

text \<open>The exceptions and the terminal conditions the script can end a run with.\<close>

datatype error =
    MissingAmountError
  | ValueError
  | TypeError
  | KeyError
  | DefaultNotInOptionsError

fun col_index :: "string \<Rightarrow> string list \<Rightarrow> nat option" where
  "col_index n [] = None"
| "col_index n (c # cs) = (if c = n then Some 0 else map_option Suc (col_index n cs))"

text \<open>
  The cell of row \<open>r\<close> under label \<open>n\<close> of the header \<open>cs\<close>. Every read of the script is guarded by
  \<^verbatim>\<open>n in df.columns\<close> (or follows the assignment of \<^verbatim>\<open>sales_amount\<close>), and rows are as
  long as the header; outside of that the model reads a missing value. Where a label
  occurs more than once the first position is read; the one selection of the script
  that pandas refuses for such a label is in \<open>assign_amount\<close> below.
\<close>

definition cell_at :: "string list \<Rightarrow> string \<Rightarrow> cell list \<Rightarrow> cell" where
  "cell_at cs n r =
     (case col_index n cs of
        None \<Rightarrow> NaN
      | Some i \<Rightarrow> (if i < length r then r ! i else NaN))"

text \<open>\<^verbatim>\<open>df[n]\<close>: the column as a list of cells, in row order, and its dtype.\<close>

definition get_col :: "string \<Rightarrow> frame \<Rightarrow> cell list" where
  "get_col n df = map (cell_at (columns df) n) (rows df)"

definition dtype_of :: "string \<Rightarrow> frame \<Rightarrow> dtype" where
  "dtype_of n df =
     (case col_index n (columns df) of
        None \<Rightarrow> Float64
      | Some i \<Rightarrow> (if i < length (dtypes df) then dtypes df ! i else Float64))"

text \<open>
  \<^verbatim>\<open>df[n] = series\<close>: overwrites the column when the label exists, appends a new last
  column otherwise; the column takes the dtype of the series.
\<close>

definition set_col :: "string \<Rightarrow> dtype \<Rightarrow> cell list \<Rightarrow> frame \<Rightarrow> frame" where
  "set_col n d vals df =
     (case col_index n (columns df) of
        Some i \<Rightarrow> df\<lparr>dtypes := (dtypes df)[i := d],
                     rows := map (\<lambda>(r, v). r[i := v]) (zip (rows df) vals)\<rparr>
      | None \<Rightarrow> df\<lparr>columns := columns df @ [n], dtypes := dtypes df @ [d],
                   rows := map (\<lambda>(r, v). r @ [v]) (zip (rows df) vals)\<rparr>)"

text \<open>\<^verbatim>\<open>df.empty\<close>: some axis has length zero.\<close>

definition empty_df :: "frame \<Rightarrow> bool" where
  "empty_df df = (columns df = [] \<or> rows df = [])"

section \<open>Functions of Python, numpy and pandas\<close>

text \<open>
  The script calls functions whose code is not part of the repository and whose result
  the repository does not determine. They are the parameters of the model:

    \<^item> \<open>normalize_label\<close>: \<^verbatim>\<open>str.strip()\<close> followed by \<^verbatim>\<open>str.lower()\<close>, on all of Unicode
      (line 50);
    \<^item> \<open>parse_date col c\<close>: the timestamp that \<^verbatim>\<open>pd.to_datetime(col, errors="coerce")\<close>
      reads in cell \<open>c\<close> of column \<open>col\<close>, or \<open>None\<close> where it fails and writes \<^verbatim>\<open>NaT\<close>
      (line 165);
    \<^item> \<open>argsort\<close>: the sort of numpy behind \<^verbatim>\<open>sort_values\<close> (kind \<^verbatim>\<open>quicksort\<close>), which
      returns the positions of the values in ascending order of value and leaves open in
      which order equal values come (lines 135 and 152);
    \<^item> \<open>float_sum\<close>, \<open>group_float_sum\<close> and \<open>float_div\<close>: the float64 sum of an array
      (\<^verbatim>\<open>Series.sum()\<close>, \<^verbatim>\<open>Series.mean()\<close>), the float64 sum of one group
      (\<^verbatim>\<open>groupby(...).sum()\<close>) and the float64 division, each with its rounding.
\<close>

record library =
  normalize_label :: "string \<Rightarrow> string"
  parse_date :: "cell list \<Rightarrow> cell \<Rightarrow> int option"
  argsort :: "rat list \<Rightarrow> nat list"
  float_sum :: "rat list \<Rightarrow> rat"
  group_float_sum :: "rat list \<Rightarrow> rat"
  float_div :: "rat \<Rightarrow> rat \<Rightarrow> rat"

section \<open>Schema resolution (lines 49 to 77)\<close>

text \<open>\<^verbatim>\<open>df.columns = df.columns.str.strip().str.lower()\<close>\<close>

definition normalize_columns :: "library \<Rightarrow> frame \<Rightarrow> frame" where
  "normalize_columns L df = df\<lparr>columns := map (normalize_label L) (columns df)\<rparr>"

text \<open>
  \<^verbatim>\<open>df["sales_amount"] = df[src]\<close> (lines 54 and 56). Where the label \<open>src\<close> occurs more
  than once, \<^verbatim>\<open>df[src]\<close> is a DataFrame and the assignment raises \<^verbatim>\<open>ValueError\<close>.
\<close>

definition assign_amount :: "string \<Rightarrow> frame \<Rightarrow> error + frame" where
  "assign_amount src df =
     (if 1 < count_list (columns df) src then Inl ValueError
      else Inr (set_col ''sales_amount'' (dtype_of src df) (get_col src df) df))"

text \<open>
  Lines 50 to 59: the labels are normalized, then \<^verbatim>\<open>sales_amount\<close> is bound to the
  \<^verbatim>\<open>sales\<close> column, else to the \<^verbatim>\<open>revenue\<close> column, else the run is stopped
  (\<^verbatim>\<open>st.error\<close>, \<^verbatim>\<open>st.stop()\<close>).
\<close>

definition resolve :: "library \<Rightarrow> frame \<Rightarrow> error + frame" where
  "resolve L df0 =
     (let df = normalize_columns L df0 in
      if ''sales'' \<in> set (columns df) then assign_amount ''sales'' df
      else if ''revenue'' \<in> set (columns df) then assign_amount ''revenue'' df
      else Inl MissingAmountError)"

text \<open>Lines 61 to 70.\<close>

definition product_column :: "frame \<Rightarrow> string option" where
  "product_column df =
     (if ''productline'' \<in> set (columns df) then Some ''productline''
      else if ''product_category'' \<in> set (columns df) then Some ''product_category''
      else if ''product'' \<in> set (columns df) then Some ''product''
      else if ''products'' \<in> set (columns df) then Some ''products''
      else None)"

text \<open>Lines 72 to 77.\<close>

definition region_column :: "frame \<Rightarrow> string option" where
  "region_column df =
     (if ''region'' \<in> set (columns df) then Some ''region''
      else if ''country'' \<in> set (columns df) then Some ''country''
      else None)"

section \<open>Sidebar filters (lines 79 to 116)\<close>

text \<open>
  \<^verbatim>\<open>Series.unique()\<close>: the distinct values in order of first appearance, missing values
  included (one \<^verbatim>\<open>NaN\<close> stands for all of them).
\<close>

definition unique :: "cell list \<Rightarrow> cell list" where
  "unique xs = rev (remdups (rev xs))"

text \<open>
  \<^verbatim>\<open>df[df[n].isin(sel)]\<close>: the rows whose cell under \<open>n\<close> is one of the selected values;
  \<^verbatim>\<open>isin\<close> lets a missing value match a missing value.
\<close>

definition isin_rows :: "string \<Rightarrow> cell list \<Rightarrow> frame \<Rightarrow> frame" where
  "isin_rows n sel df = df\<lparr>rows := filter (\<lambda>r. cell_at (columns df) n r \<in> set sel) (rows df)\<rparr>"

text \<open>
  What the user has chosen in the four \<^verbatim>\<open>st.sidebar.multiselect\<close> widgets. \<open>None\<close> is a
  widget left at its \<^verbatim>\<open>default\<close>, which is the list of \<^verbatim>\<open>options\<close>: every value of the
  column in the frame as it is when the widget is drawn.
\<close>

record filter_spec =
  product_filter :: "cell list option"
  region_filter :: "cell list option"
  status_filter :: "cell list option"
  year_filter :: "cell list option"

definition multiselect :: "cell list \<Rightarrow> cell list option \<Rightarrow> cell list" where
  "multiselect options choice = (case choice of None \<Rightarrow> options | Some sel \<Rightarrow> sel)"

text \<open>
  \<^verbatim>\<open>st.sidebar.multiselect\<close> looks every value of \<^verbatim>\<open>default\<close> up in \<^verbatim>\<open>options\<close> and raises
  \<^verbatim>\<open>StreamlitDefaultNotInOptionsError\<close> for a value it does not find. The script passes
  the same values for both, and the one value that is not found among themselves is the
  \<^verbatim>\<open>NaN\<close> of a numeric column, which is not equal to itself.
\<close>

definition default_in_options :: "dtype \<Rightarrow> cell list \<Rightarrow> bool" where
  "default_in_options d options = (\<not> ((d = Int64 \<or> d = Float64) \<and> NaN \<in> set options))"

text \<open>
  The order in which group keys and options are sorted: numbers before timestamps
  before strings, numbers and timestamps by value, strings by code point.
\<close>

fun cell_key :: "cell \<Rightarrow> nat \<times> rat \<times> string" where
  "cell_key (Num q) = (0, q, [])"
| "cell_key (Timestamp t) = (1, of_int t, [])"
| "cell_key (Str s) = (2, 0, s)"
| "cell_key NaN = (3, 0, [])"
| "cell_key NaT = (3, 1, [])"

text \<open>
  Python's \<^verbatim>\<open>sorted\<close> compares the values with \<^verbatim>\<open><\<close>, which raises \<^verbatim>\<open>TypeError\<close> between
  a string and a float and between a timestamp and either of them. The three classes
  of mutually comparable cells:
\<close>

fun py_class :: "cell \<Rightarrow> nat" where
  "py_class (Num q) = 0"
| "py_class NaN = 0"
| "py_class (Str s) = 1"
| "py_class (Timestamp t) = 2"
| "py_class NaT = 2"

definition sorted_raises :: "cell list \<Rightarrow> bool" where
  "sorted_raises xs = (\<exists>x \<in> set xs. \<exists>y \<in> set xs. py_class x \<noteq> py_class y)"

definition sorted_cells :: "cell list \<Rightarrow> cell list" where
  "sorted_cells xs = sort_key cell_key xs"

text \<open>One categorical filter block (lines 83 to 89, 92 to 98, 101 to 107).\<close>

definition select_filter :: "string \<Rightarrow> cell list option \<Rightarrow> frame \<Rightarrow> error + frame" where
  "select_filter n choice df =
     (let options = unique (get_col n df) in
      if \<not> default_in_options (dtype_of n df) options then Inl DefaultNotInOptionsError
      else Inr (isin_rows n (multiselect options choice) df))"

text \<open>The year block (lines 110 to 116), whose options are \<^verbatim>\<open>sorted(...)\<close>.\<close>

definition year_select :: "cell list option \<Rightarrow> frame \<Rightarrow> error + frame" where
  "year_select choice df =
     (let options = unique (get_col ''year_id'' df) in
      if sorted_raises options then Inl TypeError
      else if \<not> default_in_options (dtype_of ''year_id'' df) (sorted_cells options)
      then Inl DefaultNotInOptionsError
      else Inr (isin_rows ''year_id'' (multiselect (sorted_cells options) choice) df))"

text \<open>
  The product block and the region block (\<^verbatim>\<open>if product_column:\<close>, \<^verbatim>\<open>if region_column:\<close>),
  the status block and the year block.
\<close>

definition category_block :: "string option \<Rightarrow> cell list option \<Rightarrow> frame \<Rightarrow> error + frame" where
  "category_block col choice df =
     (case col of Some c \<Rightarrow> select_filter c choice df | None \<Rightarrow> Inr df)"

definition status_block :: "cell list option \<Rightarrow> frame \<Rightarrow> error + frame" where
  "status_block choice df =
     (if ''status'' \<in> set (columns df) then select_filter ''status'' choice df else Inr df)"

definition year_block :: "cell list option \<Rightarrow> frame \<Rightarrow> error + frame" where
  "year_block choice df =
     (if ''year_id'' \<in> set (columns df) then year_select choice df else Inr df)"

text \<open>
  Lines 83 to 116, in the order of the script; \<^verbatim>\<open>product_column\<close> and \<^verbatim>\<open>region_column\<close>
  were determined on the frame before any filter. An exception ends the sequence.
\<close>

definition apply_filters :: "filter_spec \<Rightarrow> frame \<Rightarrow> error + frame" where
  "apply_filters spec df =
     (case category_block (product_column df) (product_filter spec) df of
        Inl e \<Rightarrow> Inl e
      | Inr d1 \<Rightarrow>
          (case category_block (region_column df) (region_filter spec) d1 of
             Inl e \<Rightarrow> Inl e
           | Inr d2 \<Rightarrow>
               (case status_block (status_filter spec) d2 of
                  Inl e \<Rightarrow> Inl e
                | Inr d3 \<Rightarrow> year_block (year_filter spec) d3)))"

section \<open>Aggregation (lines 118 to 180)\<close>

text \<open>
  The numbers of a column that are present, and the number a cell adds to a sum that
  skips missing values (\<^verbatim>\<open>skipna\<close>, the default: the missing cells count as 0).
\<close>

fun present :: "cell list \<Rightarrow> rat list" where
  "present [] = []"
| "present (Num q # cs) = q # present cs"
| "present (c # cs) = present cs"

fun amount :: "cell \<Rightarrow> rat" where
  "amount (Num q) = q"
| "amount _ = 0"

text \<open>
  The sum of an int64 column is an int64: the integer sum modulo \<open>2 ^ 64\<close>, in the range
  from \<open>- (2 ^ 63)\<close> to \<open>2 ^ 63 - 1\<close>.
\<close>

definition wrap64 :: "int \<Rightarrow> int" where
  "wrap64 x = signed_take_bit 63 x"

definition int_sum :: "cell list \<Rightarrow> rat" where
  "int_sum cs = of_int (wrap64 (sum_list (map (\<lambda>c. \<lfloor>amount c\<rfloor>) cs)))"

text \<open>
  \<^verbatim>\<open>Series.sum()\<close>: the int64 sum of an int64 column; for a float64 column the float64
  sum of the values with 0 in place of the missing ones, 0 for no value at all.
\<close>

definition series_sum :: "library \<Rightarrow> dtype \<Rightarrow> cell list \<Rightarrow> rat" where
  "series_sum L d cs =
     (if d = Int64 then int_sum cs
      else if cs = [] then 0
      else float_sum L (map amount cs))"

text \<open>
  \<^verbatim>\<open>Series.mean()\<close>: the float64 sum of the values, with 0 in place of the missing ones,
  divided by the number of values that are present; \<^verbatim>\<open>NaN\<close> (here \<open>None\<close>) when none is.
\<close>

definition series_mean :: "library \<Rightarrow> cell list \<Rightarrow> rat option" where
  "series_mean L cs =
     (if present cs = [] then None
      else Some (float_div L (float_sum L (map amount cs)) (of_nat (length (present cs)))))"

record kpis =
  total_sales :: rat
  avg_sales :: "rat option"
  num_transactions :: nat

text \<open>
  Lines 119 to 121. The sum and the mean are those of a numeric column; on a text column
  the mean raises \<^verbatim>\<open>TypeError\<close> whatever rows the column has, on a datetime column the sum
  does.
\<close>

definition compute_kpis :: "library \<Rightarrow> frame \<Rightarrow> error + kpis" where
  "compute_kpis L df =
     (if ''sales_amount'' \<notin> set (columns df) then Inl KeyError
      else if dtype_of ''sales_amount'' df \<noteq> Int64 \<and> dtype_of ''sales_amount'' df \<noteq> Float64
      then Inl TypeError
      else Inr \<lparr>total_sales = series_sum L (dtype_of ''sales_amount'' df) (get_col ''sales_amount'' df),
                avg_sales = series_mean L (get_col ''sales_amount'' df),
                num_transactions = length (rows df)\<rparr>)"

text \<open>
  \<^verbatim>\<open>df.groupby(n)["sales_amount"].sum()\<close>: rows with a missing key are left out, the
  groups come in ascending key order. The sum of a group is an int64 sum for an int64
  column; for a float64 column it is the float64 sum of the amounts of the group that
  are present, 0 when none is.
\<close>

definition keyed_amounts :: "string \<Rightarrow> frame \<Rightarrow> (cell \<times> cell) list" where
  "keyed_amounts n df = map (\<lambda>r. (cell_at (columns df) n r, cell_at (columns df) ''sales_amount'' r)) (rows df)"

definition group_total :: "library \<Rightarrow> dtype \<Rightarrow> cell list \<Rightarrow> rat" where
  "group_total L d cs =
     (if d = Int64 then int_sum cs
      else if present cs = [] then 0
      else group_float_sum L (present cs))"

definition group_sum :: "library \<Rightarrow> dtype \<Rightarrow> (cell \<times> cell) list \<Rightarrow> cell \<Rightarrow> rat" where
  "group_sum L d kvs k = group_total L d (map snd (filter (\<lambda>p. fst p = k) kvs))"

definition groupby_sum :: "library \<Rightarrow> string \<Rightarrow> frame \<Rightarrow> (cell \<times> rat) list" where
  "groupby_sum L n df =
     (let kvs = keyed_amounts n df;
          ks = sort_key cell_key (remdups (filter notna (map fst kvs)))
      in map (\<lambda>k. (k, group_sum L (dtype_of ''sales_amount'' df) kvs k)) ks)"

text \<open>
  \<^verbatim>\<open>.sort_values(ascending=False)\<close>: pandas reverses the values, has numpy sort them
  ascending (\<open>argsort\<close> returns the positions) and reverses the result. A position
  outside of the array, which numpy never returns, is skipped.
\<close>

definition sort_values_desc :: "library \<Rightarrow> (cell \<times> rat) list \<Rightarrow> (cell \<times> rat) list" where
  "sort_values_desc L xs =
     (let ys = rev xs;
          idx = filter (\<lambda>i. i < length ys) (argsort L (map snd ys))
      in rev (map (\<lambda>i. ys ! i) idx))"

text \<open>Lines 132 to 137 and 149 to 154.\<close>

definition sales_by :: "library \<Rightarrow> string \<Rightarrow> frame \<Rightarrow> (cell \<times> rat) list" where
  "sales_by L n df = sort_values_desc L (groupby_sum L n df)"

text \<open>\<^verbatim>\<open>pd.to_datetime(col, errors="coerce")\<close>\<close>

definition stamp :: "int option \<Rightarrow> cell" where
  "stamp p = (case p of Some t \<Rightarrow> Timestamp t | None \<Rightarrow> NaT)"

definition to_datetime :: "library \<Rightarrow> cell list \<Rightarrow> cell list" where
  "to_datetime L col = map (\<lambda>c. stamp (parse_date L col c)) col"

text \<open>\<^verbatim>\<open>df.dropna(subset=[n])\<close>\<close>

definition dropna :: "string \<Rightarrow> frame \<Rightarrow> frame" where
  "dropna n df = df\<lparr>rows := filter (\<lambda>r. notna (cell_at (columns df) n r)) (rows df)\<rparr>"

text \<open>
  Lines 165 to 173: the \<^verbatim>\<open>orderdate\<close> column of \<^verbatim>\<open>df\<close> is overwritten, \<^verbatim>\<open>df\<close> is rebound
  to the frame without the \<^verbatim>\<open>NaT\<close> rows, and the trend is computed from it. The step
  returns the trend and the new \<^verbatim>\<open>df\<close>. The keys of the groups are pairwise different
  and \<^verbatim>\<open>groupby\<close> delivers them in ascending order, which \<^verbatim>\<open>sort_values("orderdate")\<close>
  finds again.
\<close>

definition sales_trend :: "library \<Rightarrow> frame \<Rightarrow> (cell \<times> rat) list \<times> frame" where
  "sales_trend L df =
     (let df1 = set_col ''orderdate'' Datetime (to_datetime L (get_col ''orderdate'' df)) df;
          df2 = dropna ''orderdate'' df1
      in (sort_key (\<lambda>p. cell_key (fst p)) (groupby_sum L ''orderdate'' df2), df2))"

record aggregates =
  kpi :: kpis
  sales_by_product :: "(cell \<times> rat) list option"
  sales_by_region :: "(cell \<times> rat) list option"
  trend :: "(cell \<times> rat) list option"

text \<open>
  Lines 118 to 180 on the filtered frame: the KPIs, the two category series, then the
  trend. The result is paired with \<^verbatim>\<open>df\<close> as the script leaves it.
\<close>

definition aggregate :: "library \<Rightarrow> frame \<Rightarrow> error + (aggregates \<times> frame)" where
  "aggregate L df =
     (case compute_kpis L df of
        Inl e \<Rightarrow> Inl e
      | Inr k \<Rightarrow>
          (let bp = map_option (\<lambda>c. sales_by L c df) (product_column df);
               br = map_option (\<lambda>c. sales_by L c df) (region_column df)
           in if ''orderdate'' \<in> set (columns df)
              then (case sales_trend L df of
                      (t, df') \<Rightarrow> Inr (\<lparr>kpi = k, sales_by_product = bp, sales_by_region = br,
                                        trend = Some t\<rparr>, df'))
              else Inr (\<lparr>kpi = k, sales_by_product = bp, sales_by_region = br,
                         trend = None\<rparr>, df)))"

section \<open>The run of the script (lines 42 to 185)\<close>

datatype outcome =
    AwaitingInput
  | NoData
  | Failed error
  | Aggregated aggregates

text \<open>
  \<open>file\<close> is what \<^verbatim>\<open>load_data\<close> returned for the upload, \<open>None\<close> without an upload;
  \<open>spec\<close> is the state of the sidebar widgets. A run ends waiting for an upload
  (\<^verbatim>\<open>st.info\<close>), with the no-data warning, with an exception or \<^verbatim>\<open>st.stop()\<close>, or with
  the aggregates handed to the charts.
\<close>

definition run :: "library \<Rightarrow> filter_spec \<Rightarrow> frame option \<Rightarrow> outcome" where
  "run L spec file =
     (case file of
        None \<Rightarrow> AwaitingInput
      | Some df0 \<Rightarrow>
          if empty_df df0 then NoData
          else (case resolve L df0 of
                  Inl e \<Rightarrow> Failed e
                | Inr df \<Rightarrow>
                    (case apply_filters spec df of
                       Inl e \<Rightarrow> Failed e
                     | Inr fdf \<Rightarrow>
                         (case aggregate L fdf of
                            Inl e \<Rightarrow> Failed e
                          | Inr (res, df') \<Rightarrow> Aggregated res))))"

section \<open>Row predicates of the filter blocks\<close>

text \<open>
  The rows a filter block lets through, as a predicate on the row that depends on the
  header only: a widget left at its default lets every row through.
\<close>

definition accepts :: "string list \<Rightarrow> string \<Rightarrow> cell list option \<Rightarrow> cell list \<Rightarrow> bool" where
  "accepts cs n choice = (\<lambda>r. case choice of None \<Rightarrow> True | Some sel \<Rightarrow> cell_at cs n r \<in> set sel)"

definition block_pred :: "string list \<Rightarrow> string option \<Rightarrow> cell list option \<Rightarrow> cell list \<Rightarrow> bool" where
  "block_pred cs col choice = (\<lambda>r. case col of None \<Rightarrow> True | Some c \<Rightarrow> accepts cs c choice r)"

definition status_pred :: "string list \<Rightarrow> cell list option \<Rightarrow> cell list \<Rightarrow> bool" where
  "status_pred cs choice = (\<lambda>r. ''status'' \<in> set cs \<longrightarrow> accepts cs ''status'' choice r)"

definition year_pred :: "string list \<Rightarrow> cell list option \<Rightarrow> cell list \<Rightarrow> bool" where
  "year_pred cs choice = (\<lambda>r. ''year_id'' \<in> set cs \<longrightarrow> accepts cs ''year_id'' choice r)"

definition keeps :: "filter_spec \<Rightarrow> frame \<Rightarrow> cell list \<Rightarrow> bool" where
  "keeps spec df = (\<lambda>r.
     block_pred (columns df) (product_column df) (product_filter spec) r \<and>
     block_pred (columns df) (region_column df) (region_filter spec) r \<and>
     status_pred (columns df) (status_filter spec) r \<and>
     year_pred (columns df) (year_filter spec) r)"

text \<open>The widget of a column can be drawn: no block raises on it.\<close>

definition options_ok :: "string \<Rightarrow> frame \<Rightarrow> bool" where
  "options_ok n df = default_in_options (dtype_of n df) (get_col n df)"

definition block_ok :: "string option \<Rightarrow> frame \<Rightarrow> bool" where
  "block_ok col df = (case col of None \<Rightarrow> True | Some c \<Rightarrow> options_ok c df)"

definition status_ok :: "frame \<Rightarrow> bool" where
  "status_ok df = (''status'' \<in> set (columns df) \<longrightarrow> options_ok ''status'' df)"

definition year_ok :: "frame \<Rightarrow> bool" where
  "year_ok df = (''year_id'' \<in> set (columns df) \<longrightarrow>
     \<not> sorted_raises (get_col ''year_id'' df) \<and> options_ok ''year_id'' df)"

section \<open>The library functions on the example tables\<close>

text \<open>
  \<^verbatim>\<open>str.strip()\<close> and \<^verbatim>\<open>str.lower()\<close> on labels of ASCII characters: white space is the
  characters 9 to 13, 28 to 31 and 32; the letters A to Z are mapped to a to z.
\<close>

definition is_space :: "char \<Rightarrow> bool" where
  "is_space c = (let n = (of_char c :: nat) in (9 \<le> n \<and> n \<le> 13) \<or> (28 \<le> n \<and> n \<le> 32))"

definition lower_char :: "char \<Rightarrow> char" where
  "lower_char c = (let n = (of_char c :: nat) in if 65 \<le> n \<and> n \<le> 90 then char_of (n + 32) else c)"

definition strip :: "string \<Rightarrow> string" where
  "strip s = rev (dropWhile is_space (rev (dropWhile is_space s)))"

definition ascii_normalize :: "string \<Rightarrow> string" where
  "ascii_normalize s = map lower_char (strip s)"

text \<open>A parser that reads one date.\<close>

definition sample_parse :: "cell list \<Rightarrow> cell \<Rightarrow> int option" where
  "sample_parse col c = (if c = Str ''2003-01-06'' then Some 1041811200000000000 else None)"

text \<open>A sort that keeps equal values in the order of their positions.\<close>

definition stable_argsort :: "rat list \<Rightarrow> nat list" where
  "stable_argsort vs = map snd (sort_key fst (zip vs [0..<length vs]))"

text \<open>
  The labels of the example tables are ASCII and their amounts are small whole numbers,
  whose sums and quotients float64 computes without rounding: on them the functions of
  the library return what the following return.
\<close>

definition example_library :: library where
  "example_library =
     \<lparr>normalize_label = ascii_normalize, parse_date = sample_parse, argsort = stable_argsort,
      float_sum = sum_list, group_float_sum = sum_list, float_div = (\<lambda>a b. a / b)\<rparr>"

section \<open>Example tables\<close>

text \<open>A resolved table of three orders, a sidebar state and the table it leaves.\<close>

definition orders :: frame where
  "orders = \<lparr>columns = [''sales'', ''productline'', ''country'', ''status'', ''year_id'', ''sales_amount''],
     dtypes = [Int64, Text, Text, Text, Int64, Int64],
     rows = [[Num 100, Str ''A'', Str ''US'', Str ''Shipped'', Num 2003, Num 100],
             [Num 50, Str ''B'', Str ''US'', Str ''Cancelled'', Num 2004, Num 50],
             [Num 30, Str ''A'', Str ''CA'', Str ''Shipped'', Num 2004, Num 30]]\<rparr>"

definition only_shipped :: filter_spec where
  "only_shipped = \<lparr>product_filter = None, region_filter = Some [Str ''US'', Str ''CA''],
     status_filter = Some [Str ''Shipped''], year_filter = None\<rparr>"

definition shipped_orders :: frame where
  "shipped_orders = \<lparr>columns = [''sales'', ''productline'', ''country'', ''status'', ''year_id'', ''sales_amount''],
     dtypes = [Int64, Text, Text, Text, Int64, Int64],
     rows = [[Num 100, Str ''A'', Str ''US'', Str ''Shipped'', Num 2003, Num 100],
             [Num 30, Str ''A'', Str ''CA'', Str ''Shipped'', Num 2004, Num 30]]\<rparr>"

definition no_choice :: filter_spec where
  "no_choice = \<lparr>product_filter = None, region_filter = None, status_filter = None,
     year_filter = None\<rparr>"

text \<open>An upload without an amount column.\<close>

definition no_amount :: frame where
  "no_amount = \<lparr>columns = ['' Price '', ''ProductLine''], dtypes = [Int64, Text],
     rows = [[Num 100, Str ''A'']]\<rparr>"

section \<open>Sums of group sums\<close>

text \<open>
  The sum of some sums of a column, in the arithmetic of the column: modulo \<open>2 ^ 64\<close> for
  an int64 column (every int64 sum wraps around), and the exact sum for a float64 column.
\<close>

definition add_up :: "dtype \<Rightarrow> rat list \<Rightarrow> rat" where
  "add_up d vs = (if d = Int64 then of_int (wrap64 (sum_list (map floor vs))) else sum_list vs)"

text \<open>
  No float64 sum of a group is rounded: the sum of every group of the series is the exact
  sum of the amounts of the group that are present.
\<close>

definition exact_groups :: "library \<Rightarrow> string \<Rightarrow> frame \<Rightarrow> bool" where
  "exact_groups L n df =
     list_all (\<lambda>p. snd p = sum_list (present (map snd (filter (\<lambda>q. fst q = fst p) (keyed_amounts n df)))))
       (groupby_sum L n df)"

section \<open>The trend step, row by row\<close>



text \<open>
  A table with the date of the example parser and an unparsable one, with what the
  aggregation makes of it.
\<close>

definition dated :: frame where
  "dated = \<lparr>columns = [''sales'', ''country'', ''orderdate'', ''sales_amount''],
     dtypes = [Int64, Text, Text, Int64],
     rows = [[Num 100, Str ''US'', Str ''2003-01-06'', Num 100],
             [Num 50, Str ''CA'', Str ''soon'', Num 50]]\<rparr>"

definition dated_upload :: frame where
  "dated_upload = \<lparr>columns = [''Sales'', ''Country'', ''OrderDate''],
     dtypes = [Int64, Text, Text],
     rows = [[Num 100, Str ''US'', Str ''2003-01-06''],
             [Num 50, Str ''CA'', Str ''soon'']]\<rparr>"



section \<open>What the sort of numpy is assumed to do\<close>

text \<open>
  \<open>idx\<close> holds every position of an array of length \<open>n\<close> once; \<open>idx\<close> sorts the array
  \<open>vs\<close>: it holds every position once, and the values come in ascending order when they
  are read in the order of \<open>idx\<close>. In which order equal values come is left open.
\<close>

definition permutes :: "nat list \<Rightarrow> nat \<Rightarrow> bool" where
  "permutes idx n = (distinct idx \<and> set idx = {..<n})"

definition sorts :: "rat list \<Rightarrow> nat list \<Rightarrow> bool" where
  "sorts vs idx = (permutes idx (length vs) \<and> sorted (map (\<lambda>i. vs ! i) idx))"

definition argsort_sorts :: "library \<Rightarrow> bool" where
  "argsort_sorts L = (\<forall>vs. sorts vs (argsort L vs))"

section \<open>More example tables\<close>






text \<open>A table with a missing amount, one with a missing product and one with tied groups.\<close>

definition one_missing_upload :: frame where
  "one_missing_upload = \<lparr>columns = [''Sales'', ''ProductLine''], dtypes = [Float64, Text],
     rows = [[Num 10, Str ''A''], [NaN, Str ''B'']]\<rparr>"

definition one_missing :: frame where
  "one_missing = \<lparr>columns = [''sales'', ''productline'', ''sales_amount''],
     dtypes = [Float64, Text, Float64],
     rows = [[Num 10, Str ''A'', Num 10], [NaN, Str ''B'', NaN]]\<rparr>"

definition unlabelled_upload :: frame where
  "unlabelled_upload = \<lparr>columns = [''Sales'', ''ProductLine''], dtypes = [Int64, Text],
     rows = [[Num 5, NaN], [Num 7, Str ''A'']]\<rparr>"

definition unlabelled :: frame where
  "unlabelled = \<lparr>columns = [''sales'', ''productline'', ''sales_amount''],
     dtypes = [Int64, Text, Int64],
     rows = [[Num 5, NaN, Num 5], [Num 7, Str ''A'', Num 7]]\<rparr>"

definition tied_upload :: frame where
  "tied_upload = \<lparr>columns = [''Sales'', ''ProductLine''], dtypes = [Int64, Text],
     rows = [[Num 10, Str ''B''], [Num 10, Str ''A''], [Num 30, Str ''C'']]\<rparr>"

definition tied :: frame where
  "tied = \<lparr>columns = [''sales'', ''productline'', ''sales_amount''],
     dtypes = [Int64, Text, Int64],
     rows = [[Num 10, Str ''B'', Num 10], [Num 10, Str ''A'', Num 10], [Num 30, Str ''C'', Num 30]]\<rparr>"

definition tied_swapped :: frame where
  "tied_swapped = \<lparr>columns = [''sales'', ''productline'', ''sales_amount''],
     dtypes = [Int64, Text, Int64],
     rows = [[Num 10, Str ''A'', Num 10], [Num 10, Str ''B'', Num 10], [Num 30, Str ''C'', Num 30]]\<rparr>"

section \<open>The statements of the specification that are compared with the script\<close>

text \<open>
  The mean as the specification has it: the total divided by the number of rows, absent
  for no row. The division is the one of the script, on float64.
\<close>

definition claimed_mean :: "library \<Rightarrow> kpis \<Rightarrow> rat option" where
  "claimed_mean L k =
     (if num_transactions k = 0 then None
      else Some (float_div L (total_sales k) (of_nat (num_transactions k))))"

text \<open>
  The tie order as the specification has it: of two groups with equal sums, the one
  whose key appears first in the key column comes first in the series.
\<close>

fun first_pos :: "'a \<Rightarrow> 'a list \<Rightarrow> nat" where
  "first_pos a [] = 0"
| "first_pos a (x # xs) = (if x = a then 0 else Suc (first_pos a xs))"

definition claimed_tie_order :: "cell list \<Rightarrow> (cell \<times> rat) list \<Rightarrow> bool" where
  "claimed_tie_order keys series =
     sorted_wrt (\<lambda>a b. snd a = snd b \<longrightarrow> first_pos (fst a) keys < first_pos (fst b) keys) series"

section \<open>Facts about the filter blocks\<close>

lemma frame_eq_iff:
  "(a = (b::frame)) \<longleftrightarrow> columns a = columns b \<and> dtypes a = dtypes b \<and> rows a = rows b"
  by auto

lemma columns_isin_rows [simp]: "columns (isin_rows n sel df) = columns df"
  by (simp add: isin_rows_def)

lemma dtypes_isin_rows [simp]: "dtypes (isin_rows n sel df) = dtypes df"
  by (simp add: isin_rows_def)

lemma rows_isin_rows: "rows (isin_rows n sel df) = filter (\<lambda>r. cell_at (columns df) n r \<in> set sel) (rows df)"
  by (simp add: isin_rows_def)

lemma set_unique [simp]: "set (unique xs) = set xs"
  by (simp add: unique_def)

lemma set_sorted_cells [simp]: "set (sorted_cells xs) = set xs"
  by (simp add: sorted_cells_def)

lemma filter_own_column: "filter (\<lambda>r. cell_at cs n r \<in> cell_at cs n ` set rs) rs = rs"
  by (rule filter_True) simp

lemma rows_isin_multiselect:
  "set opts = set (get_col n df) \<Longrightarrow>
     rows (isin_rows n (multiselect opts c) df) = filter (accepts (columns df) n c) (rows df)"
  by (cases c) (simp_all add: rows_isin_rows multiselect_def accepts_def get_col_def filter_own_column)

lemma default_in_options_set:
  "set xs = set ys \<Longrightarrow> default_in_options d xs = default_in_options d ys"
  by (simp add: default_in_options_def)

lemma isin_rows_eq_iff:
  "set opts = set (get_col n df) \<Longrightarrow>
     (isin_rows n (multiselect opts c) df = df') \<longleftrightarrow>
       (columns df' = columns df \<and> dtypes df' = dtypes df \<and>
        rows df' = filter (accepts (columns df) n c) (rows df))"
  unfolding frame_eq_iff [of _ df'] by (auto simp: rows_isin_multiselect)

lemma select_filter_iff:
  "select_filter n c df = Inr df' \<longleftrightarrow>
     options_ok n df \<and> columns df' = columns df \<and> dtypes df' = dtypes df \<and>
     rows df' = filter (accepts (columns df) n c) (rows df)"
proof -
  have d: "default_in_options (dtype_of n df) (unique (get_col n df)) = options_ok n df"
    unfolding options_ok_def by (rule default_in_options_set) simp
  show ?thesis
  proof (cases "options_ok n df")
    case True
    then show ?thesis
      by (simp add: select_filter_def Let_def d isin_rows_eq_iff)
  next
    case False
    then show ?thesis by (simp add: select_filter_def Let_def d)
  qed
qed

lemma year_select_iff:
  "year_select c df = Inr df' \<longleftrightarrow>
     \<not> sorted_raises (get_col ''year_id'' df) \<and> options_ok ''year_id'' df \<and>
     columns df' = columns df \<and> dtypes df' = dtypes df \<and>
     rows df' = filter (accepts (columns df) ''year_id'' c) (rows df)"
proof -
  have sr: "sorted_raises (unique (get_col ''year_id'' df)) = sorted_raises (get_col ''year_id'' df)"
    by (simp add: sorted_raises_def)
  have d: "default_in_options (dtype_of ''year_id'' df) (sorted_cells (unique (get_col ''year_id'' df)))
             = options_ok ''year_id'' df"
    unfolding options_ok_def by (rule default_in_options_set) simp
  show ?thesis
  proof (cases "\<not> sorted_raises (get_col ''year_id'' df) \<and> options_ok ''year_id'' df")
    case True
    then show ?thesis
      by (simp add: year_select_def Let_def sr d isin_rows_eq_iff)
  next
    case False
    then show ?thesis by (auto simp: year_select_def Let_def sr d)
  qed
qed

lemma same_frame_iff:
  "(df = df') \<longleftrightarrow> columns df' = columns df \<and> dtypes df' = dtypes df \<and> rows df' = rows (df::frame)"
  by auto

lemma category_block_iff:
  "category_block col c df = Inr df' \<longleftrightarrow>
     block_ok col df \<and> columns df' = columns df \<and> dtypes df' = dtypes df \<and>
     rows df' = filter (block_pred (columns df) col c) (rows df)"
proof (cases col)
  case None
  then show ?thesis
    by (simp add: category_block_def block_ok_def block_pred_def same_frame_iff)
next
  case (Some n)
  then show ?thesis
    by (simp add: category_block_def block_ok_def block_pred_def select_filter_iff)
qed

lemma status_block_iff:
  "status_block c df = Inr df' \<longleftrightarrow>
     status_ok df \<and> columns df' = columns df \<and> dtypes df' = dtypes df \<and>
     rows df' = filter (status_pred (columns df) c) (rows df)"
proof (cases "''status'' \<in> set (columns df)")
  case True
  then show ?thesis
    by (simp add: status_block_def status_ok_def status_pred_def select_filter_iff)
next
  case False
  then show ?thesis
    by (simp add: status_block_def status_ok_def status_pred_def same_frame_iff)
qed

lemma year_block_iff:
  "year_block c df = Inr df' \<longleftrightarrow>
     year_ok df \<and> columns df' = columns df \<and> dtypes df' = dtypes df \<and>
     rows df' = filter (year_pred (columns df) c) (rows df)"
proof (cases "''year_id'' \<in> set (columns df)")
  case True
  then show ?thesis
    by (simp add: year_block_def year_ok_def year_pred_def year_select_iff)
next
  case False
  then show ?thesis
    by (simp add: year_block_def year_ok_def year_pred_def same_frame_iff)
qed

lemma product_column_cong: "columns df = columns df' \<Longrightarrow> product_column df = product_column df'"
  by (simp add: product_column_def)

lemma region_column_cong: "columns df = columns df' \<Longrightarrow> region_column df = region_column df'"
  by (simp add: region_column_def)

lemma apply_filters_stages:
  assumes "apply_filters spec df = Inr df'"
  obtains d1 d2 d3 where
    "category_block (product_column df) (product_filter spec) df = Inr d1"
    "category_block (region_column df) (region_filter spec) d1 = Inr d2"
    "status_block (status_filter spec) d2 = Inr d3"
    "year_block (year_filter spec) d3 = Inr df'"
  using assms by (auto simp: apply_filters_def split: sum.splits)

lemma apply_filters_Inr:
  assumes "apply_filters spec df = Inr df'"
  shows "columns df' = columns df" and "dtypes df' = dtypes df"
    and "rows df' = filter (keeps spec df) (rows df)"
proof -
  from assms obtain d1 d2 d3 where
    s1: "category_block (product_column df) (product_filter spec) df = Inr d1" and
    s2: "category_block (region_column df) (region_filter spec) d1 = Inr d2" and
    s3: "status_block (status_filter spec) d2 = Inr d3" and
    s4: "year_block (year_filter spec) d3 = Inr df'"
    by (rule apply_filters_stages)
  note i1 = s1 [unfolded category_block_iff] and i2 = s2 [unfolded category_block_iff]
    and i3 = s3 [unfolded status_block_iff] and i4 = s4 [unfolded year_block_iff]
  show "columns df' = columns df" using i1 i2 i3 i4 by simp
  show "dtypes df' = dtypes df" using i1 i2 i3 i4 by simp
  have c1: "columns d1 = columns df" and c2: "columns d2 = columns df" and c3: "columns d3 = columns df"
    using i1 i2 i3 by simp_all
  have "rows df' = filter (year_pred (columns df) (year_filter spec))
                     (filter (status_pred (columns df) (status_filter spec))
                        (filter (block_pred (columns df) (region_column df) (region_filter spec))
                           (filter (block_pred (columns df) (product_column df) (product_filter spec))
                              (rows df))))"
    using i1 i2 i3 i4 by (simp add: c1 c2 c3)
  also have "\<dots> = filter (keeps spec df) (rows df)"
    unfolding filter_filter keeps_def by (rule filter_cong) auto
  finally show "rows df' = filter (keeps spec df) (rows df)" .
qed

lemma sorted_raises_mono: "set xs \<subseteq> set ys \<Longrightarrow> sorted_raises xs \<Longrightarrow> sorted_raises ys"
  unfolding sorted_raises_def by blast

lemma get_col_mono:
  "columns a = columns b \<Longrightarrow> set (rows a) \<subseteq> set (rows b) \<Longrightarrow> set (get_col n a) \<subseteq> set (get_col n b)"
  by (auto simp: get_col_def)

lemma dtype_of_cong:
  "columns a = columns b \<Longrightarrow> dtypes a = dtypes b \<Longrightarrow> dtype_of n a = dtype_of n b"
  by (cases "col_index n (columns b)") (simp_all add: dtype_of_def)

lemma options_ok_mono:
  assumes "columns a = columns b" and "dtypes a = dtypes b" and "set (rows a) \<subseteq> set (rows b)"
    and "options_ok n b"
  shows "options_ok n a"
  using assms(4) get_col_mono [OF assms(1,3), of n] dtype_of_cong [OF assms(1,2), of n]
  by (auto simp: options_ok_def default_in_options_def)

lemma block_ok_mono:
  "columns a = columns b \<Longrightarrow> dtypes a = dtypes b \<Longrightarrow> set (rows a) \<subseteq> set (rows b) \<Longrightarrow>
     block_ok col b \<Longrightarrow> block_ok col a"
  by (cases col) (auto simp: block_ok_def intro: options_ok_mono)

lemma status_ok_mono:
  "columns a = columns b \<Longrightarrow> dtypes a = dtypes b \<Longrightarrow> set (rows a) \<subseteq> set (rows b) \<Longrightarrow>
     status_ok b \<Longrightarrow> status_ok a"
  by (auto simp: status_ok_def intro: options_ok_mono)

lemma year_ok_mono:
  assumes "columns a = columns b" and "dtypes a = dtypes b" and "set (rows a) \<subseteq> set (rows b)"
    and "year_ok b"
  shows "year_ok a"
  using assms(4) options_ok_mono [OF assms(1,2,3), of "''year_id''"]
    sorted_raises_mono [OF get_col_mono [OF assms(1,3), of "''year_id''"]]
  by (auto simp: year_ok_def assms(1))

lemma apply_only_shipped: "apply_filters only_shipped orders = Inr shipped_orders"
  by code_simp

lemma no_amount_hyps:
  "''sales'' \<notin> set (map (normalize_label example_library) (columns no_amount))"
  "''revenue'' \<notin> set (map (normalize_label example_library) (columns no_amount))"
  "\<not> empty_df no_amount"
  by code_simp+

section \<open>Facts about sums and group sums\<close>

lemma sum_list_present: "sum_list (present cs) = sum_list (map amount cs)"
  by (induction cs rule: present.induct) auto

lemma sum_list_insort_key: "sum_list (map f (insort_key g x xs)) = f x + sum_list (map f xs)"
  for f :: "'a \<Rightarrow> 'b::comm_monoid_add"
  by (induction xs) (auto simp: add.left_commute)

lemma sum_list_sort_key: "sum_list (map f (sort_key g xs)) = sum_list (map f xs)"
  for f :: "'a \<Rightarrow> 'b::comm_monoid_add"
  by (induction xs) (auto simp: sum_list_insort_key)

lemma add_up_map: "add_up d (map snd xs) =
    (if d = Int64 then of_int (wrap64 (sum_list (map (\<lambda>p. \<lfloor>snd p\<rfloor>) xs))) else sum_list (map snd xs))"
  for xs :: "('a \<times> rat) list"
  by (simp add: add_up_def comp_def)

lemma add_up_sort_key: "add_up d (map snd (sort_key g xs)) = add_up d (map snd xs)"
  for xs :: "('a \<times> rat) list"
  by (simp add: add_up_map sum_list_sort_key)

lemma add_up_amounts: "add_up Int64 (map amount cs) = int_sum cs"
  by (simp add: add_up_def int_sum_def comp_def)

lemma sum_list_single_key:
  "distinct ks \<Longrightarrow> sum_list (map (\<lambda>k. if a = k then v else 0) ks) = (if a \<in> set ks then v else 0)"
  for v :: "'b::comm_monoid_add"
  by (induction ks) auto

lemma sum_list_groups:
  fixes f :: "'k \<times> 'v \<Rightarrow> 'b::comm_monoid_add"
  assumes "distinct ks"
  shows "sum_list (map (\<lambda>k. sum_list (map f (filter (\<lambda>p. fst p = k) kvs))) ks)
           = sum_list (map f (filter (\<lambda>p. fst p \<in> set ks) kvs))"
proof (induction kvs)
  case Nil
  then show ?case by simp
next
  case (Cons p kvs)
  have "(\<lambda>k. sum_list (map f (filter (\<lambda>q. fst q = k) (p # kvs))))
      = (\<lambda>k. (if fst p = k then f p else 0) + sum_list (map f (filter (\<lambda>q. fst q = k) kvs)))"
    by (rule ext) simp
  then have "sum_list (map (\<lambda>k. sum_list (map f (filter (\<lambda>q. fst q = k) (p # kvs)))) ks)
      = sum_list (map (\<lambda>k. (if fst p = k then f p else 0) + sum_list (map f (filter (\<lambda>q. fst q = k) kvs))) ks)"
    by simp
  also have "\<dots> = sum_list (map (\<lambda>k. if fst p = k then f p else 0) ks)
                    + sum_list (map (\<lambda>k. sum_list (map f (filter (\<lambda>q. fst q = k) kvs))) ks)"
    by (rule sum_list_addf)
  also have "\<dots> = (if fst p \<in> set ks then f p else 0)
                    + sum_list (map f (filter (\<lambda>q. fst q \<in> set ks) kvs))"
    using Cons assms by (simp add: sum_list_single_key)
  finally show ?case by simp
qed

lemma wrap64_add: "wrap64 (wrap64 a + wrap64 b) = wrap64 (a + b)"
  by (simp add: wrap64_def signed_take_bit_add)

lemma wrap64_idem: "wrap64 (wrap64 a) = wrap64 a"
  by (simp add: wrap64_def)

lemma wrap64_sum_list: "wrap64 (sum_list (map (\<lambda>x. wrap64 (f x)) xs)) = wrap64 (sum_list (map f xs))"
proof (induction xs)
  case Nil
  then show ?case by simp
next
  case (Cons x xs)
  have "wrap64 (wrap64 (f x) + sum_list (map (\<lambda>x. wrap64 (f x)) xs))
      = wrap64 (wrap64 (wrap64 (f x)) + wrap64 (sum_list (map (\<lambda>x. wrap64 (f x)) xs)))"
    by (simp only: wrap64_add)
  also have "\<dots> = wrap64 (wrap64 (f x) + wrap64 (sum_list (map f xs)))"
    by (simp only: Cons.IH wrap64_idem)
  also have "\<dots> = wrap64 (f x + sum_list (map f xs))"
    by (simp only: wrap64_add)
  finally show ?case by simp
qed

lemma group_sums_add_up_general:
  assumes "distinct ks"
    and "d = Int64 \<or> (\<forall>k \<in> set ks. group_sum L d kvs k
                          = sum_list (present (map snd (filter (\<lambda>p. fst p = k) kvs))))"
  shows "add_up d (map (group_sum L d kvs) ks)
           = add_up d (map (\<lambda>p. amount (snd p)) (filter (\<lambda>p. fst p \<in> set ks) kvs))"
proof (cases "d = Int64")
  case True
  have g: "group_sum L Int64 kvs
      = (\<lambda>k. of_int (wrap64 (sum_list (map (\<lambda>p. \<lfloor>amount (snd p)\<rfloor>) (filter (\<lambda>p. fst p = k) kvs)))))"
    by (rule ext) (simp add: group_sum_def group_total_def int_sum_def comp_def)
  have "wrap64 (sum_list (map (\<lambda>k. wrap64 (sum_list (map (\<lambda>p. \<lfloor>amount (snd p)\<rfloor>) (filter (\<lambda>p. fst p = k) kvs)))) ks))
      = wrap64 (sum_list (map (\<lambda>k. sum_list (map (\<lambda>p. \<lfloor>amount (snd p)\<rfloor>) (filter (\<lambda>p. fst p = k) kvs))) ks))"
    by (rule wrap64_sum_list)
  also have "\<dots> = wrap64 (sum_list (map (\<lambda>p. \<lfloor>amount (snd p)\<rfloor>) (filter (\<lambda>p. fst p \<in> set ks) kvs)))"
    by (simp only: sum_list_groups [OF assms(1)])
  finally show ?thesis
    using True by (simp add: add_up_def g comp_def)
next
  case False
  with assms(2) have e: "\<forall>k \<in> set ks. group_sum L d kvs k
                          = sum_list (map (\<lambda>p. amount (snd p)) (filter (\<lambda>p. fst p = k) kvs))"
    by (simp add: sum_list_present comp_def)
  have "sum_list (map (group_sum L d kvs) ks)
      = sum_list (map (\<lambda>k. sum_list (map (\<lambda>p. amount (snd p)) (filter (\<lambda>p. fst p = k) kvs))) ks)"
    by (rule arg_cong [where f = sum_list], rule map_cong [OF refl]) (use e in simp)
  also have "\<dots> = sum_list (map (\<lambda>p. amount (snd p)) (filter (\<lambda>p. fst p \<in> set ks) kvs))"
    by (rule sum_list_groups [OF assms(1)])
  finally show ?thesis using False by (simp add: add_up_def)
qed

lemma groupby_sum_map:
  "groupby_sum L n df =
     map (\<lambda>k. (k, group_sum L (dtype_of ''sales_amount'' df) (keyed_amounts n df) k))
       (sort_key cell_key (remdups (filter notna (map fst (keyed_amounts n df)))))"
  by (simp add: groupby_sum_def Let_def)

lemma groupby_sum_add_up:
  assumes "dtype_of ''sales_amount'' df = Int64 \<or> exact_groups L n df"
  shows "add_up (dtype_of ''sales_amount'' df) (map snd (groupby_sum L n df)) =
           add_up (dtype_of ''sales_amount'' df)
             (map amount (map (cell_at (columns df) ''sales_amount'')
                (filter (\<lambda>r. notna (cell_at (columns df) n r)) (rows df))))"
proof -
  let ?kvs = "keyed_amounts n df" and ?d = "dtype_of ''sales_amount'' df"
  let ?ks = "sort_key cell_key (remdups (filter notna (map fst ?kvs)))"
  have d: "distinct ?ks" by simp
  have s: "set ?ks = {k \<in> fst ` set ?kvs. notna k}" by auto
  have ex: "?d = Int64 \<or> (\<forall>k \<in> set ?ks. group_sum L ?d ?kvs k
                          = sum_list (present (map snd (filter (\<lambda>p. fst p = k) ?kvs))))"
    using assms unfolding exact_groups_def groupby_sum_map list_all_iff by auto
  have "map snd (groupby_sum L n df) = map (group_sum L ?d ?kvs) ?ks"
    by (simp add: groupby_sum_map comp_def)
  then have "add_up ?d (map snd (groupby_sum L n df)) = add_up ?d (map (group_sum L ?d ?kvs) ?ks)"
    by simp
  also have "\<dots> = add_up ?d (map (\<lambda>p. amount (snd p)) (filter (\<lambda>p. fst p \<in> set ?ks) ?kvs))"
    by (rule group_sums_add_up_general [OF d ex])
  also have "filter (\<lambda>p. fst p \<in> set ?ks) ?kvs = filter (\<lambda>p. notna (fst p)) ?kvs"
    by (rule filter_cong) (auto simp: s)
  also have "map (\<lambda>p. amount (snd p)) (filter (\<lambda>p. notna (fst p)) ?kvs)
      = map amount (map (cell_at (columns df) ''sales_amount'')
                   (filter (\<lambda>r. notna (cell_at (columns df) n r)) (rows df)))"
    by (simp add: keyed_amounts_def filter_map comp_def)
  finally show ?thesis .
qed

section \<open>Facts about the order of the groups\<close>



lemma groupby_sum_keys: "map fst (groupby_sum L n df)
    = sort_key cell_key (remdups (filter notna (map fst (keyed_amounts n df))))"
  by (simp add: groupby_sum_map comp_def)

lemma groupby_sum_distinct: "distinct (map fst (groupby_sum L n df))"
  by (simp add: groupby_sum_keys)




section \<open>Facts about the trend step\<close>



lemma col_index_None: "n \<notin> set cs \<Longrightarrow> col_index n cs = None"
  by (induction cs) auto













lemma compute_kpis_Inr:
  assumes "compute_kpis L df = Inr k"
  shows "total_sales k = series_sum L (dtype_of ''sales_amount'' df) (get_col ''sales_amount'' df)"
    and "avg_sales k = series_mean L (get_col ''sales_amount'' df)"
    and "num_transactions k = length (rows df)"
    and "dtype_of ''sales_amount'' df = Int64 \<or> dtype_of ''sales_amount'' df = Float64"
    and "''sales_amount'' \<in> set (columns df)"
  using assms by (auto simp: compute_kpis_def split: if_splits)


lemma dated_filtered:
  "resolve example_library dated_upload = Inr dated"
  "apply_filters no_choice dated = Inr dated"
  by code_simp+



section \<open>Facts about tables without rows\<close>









section \<open>Facts about the sort of a category series\<close>

lemma permutes_filter: "permutes idx n \<Longrightarrow> filter (\<lambda>i. i < n) idx = idx"
  by (rule filter_True) (auto simp: permutes_def)

lemma sum_list_permutes:
  fixes f :: "'a \<Rightarrow> 'b::comm_monoid_add"
  assumes "permutes idx (length ys)"
  shows "sum_list (map f (map (\<lambda>i. ys ! i) idx)) = sum_list (map f ys)"
proof -
  have "sum_list (map f (map (\<lambda>i. ys ! i) idx)) = sum_list (map (\<lambda>i. f (ys ! i)) idx)"
    by (simp add: comp_def)
  also have "\<dots> = sum (\<lambda>i. f (ys ! i)) (set idx)"
    using assms by (simp add: permutes_def sum_list_distinct_conv_sum_set)
  also have "\<dots> = sum (\<lambda>i. f (ys ! i)) {0..<length ys}"
    using assms by (simp add: permutes_def atLeast0LessThan)
  also have "\<dots> = sum (\<lambda>i. map f ys ! i) {0..<length (map f ys)}"
    by simp
  also have "\<dots> = sum_list (map f ys)"
    by (rule sum_list_sum_nth [symmetric])
  finally show ?thesis .
qed

lemma set_permutes:
  assumes "permutes idx (length ys)"
  shows "set (map (\<lambda>i. ys ! i) idx) = set ys"
proof -
  have "set (map (\<lambda>i. ys ! i) idx) = (\<lambda>i. ys ! i) ` {0..<length ys}"
    using assms by (simp add: permutes_def atLeast0LessThan)
  also have "\<dots> = set ys"
    using nth_image [of "length ys" ys] by simp
  finally show ?thesis .
qed

lemma distinct_permutes:
  assumes "permutes idx (length ys)" and "distinct (map g ys)"
  shows "distinct (map g (map (\<lambda>i. ys ! i) idx))"
proof -
  have "inj_on (\<lambda>i. g (ys ! i)) (set idx)"
  proof (rule inj_onI)
    fix i j
    assume "i \<in> set idx" "j \<in> set idx" "g (ys ! i) = g (ys ! j)"
    with assms(1) have "i < length (map g ys)" "j < length (map g ys)" "map g ys ! i = map g ys ! j"
      by (auto simp: permutes_def)
    with nth_eq_iff_index_eq [OF assms(2), of i j] show "i = j" by blast
  qed
  with assms(1) show ?thesis by (simp add: distinct_map permutes_def comp_def)
qed

lemma sort_values_desc_permutes:
  assumes "permutes (argsort L (map snd (rev xs))) (length xs)"
  shows "sort_values_desc L xs = rev (map (\<lambda>i. rev xs ! i) (argsort L (map snd (rev xs))))"
  using permutes_filter [OF assms] by (simp add: sort_values_desc_def Let_def)

lemma sort_values_desc_sorts:
  fixes f :: "cell \<times> rat \<Rightarrow> 'c::comm_monoid_add"
  assumes "sorts (map snd (rev xs)) (argsort L (map snd (rev xs)))"
  shows "sorted_wrt (\<lambda>a b. snd b \<le> snd a) (sort_values_desc L xs)"
    and "set (sort_values_desc L xs) = set xs"
    and "distinct (map g xs) \<Longrightarrow> distinct (map g (sort_values_desc L xs))"
    and "sum_list (map f (sort_values_desc L xs)) = sum_list (map f xs)"
proof -
  let ?ys = "rev xs" and ?idx = "argsort L (map snd (rev xs))"
  from assms have p: "permutes ?idx (length ?ys)" and s: "sorted (map (\<lambda>i. map snd ?ys ! i) ?idx)"
    by (simp_all add: sorts_def)
  from p have p': "permutes ?idx (length xs)" by simp
  note d = sort_values_desc_permutes [OF p']
  have "map (\<lambda>i. map snd ?ys ! i) ?idx = map snd (map (\<lambda>i. ?ys ! i) ?idx)"
    using p by (auto simp: permutes_def)
  with s have "sorted (map snd (map (\<lambda>i. ?ys ! i) ?idx))" by simp
  then have "sorted_wrt (\<lambda>a b. snd a \<le> snd b) (map (\<lambda>i. ?ys ! i) ?idx)"
    by (simp only: sorted_map)
  then show "sorted_wrt (\<lambda>a b. snd b \<le> snd a) (sort_values_desc L xs)"
    unfolding d by (simp only: sorted_wrt_rev)
  show "set (sort_values_desc L xs) = set xs"
    unfolding d using set_permutes [OF p] by simp
  show "distinct (map g (sort_values_desc L xs))" if "distinct (map g xs)"
  proof -
    from that have "distinct (map g ?ys)" by (simp add: rev_map [symmetric])
    from distinct_permutes [OF p this] show ?thesis
      unfolding d by (simp add: rev_map [symmetric])
  qed
  show "sum_list (map f (sort_values_desc L xs)) = sum_list (map f xs)"
    unfolding d using sum_list_permutes [OF p, of f]
    by (simp add: rev_map [symmetric] sum_list_rev)
qed

lemma stable_argsort_sorts: "sorts vs (stable_argsort vs)"
proof -
  let ?z = "zip vs [0..<length vs]"
  let ?s = "sort_key fst ?z"
  have pair: "fst p = vs ! snd p \<and> snd p < length vs" if "p \<in> set ?z" for p
    using that by (auto simp: in_set_zip)
  have inj: "inj_on snd (set ?s)"
    by (rule inj_onI) (use pair in \<open>auto simp: prod_eq_iff\<close>)
  have "distinct ?z" by (simp add: distinct_zipI2)
  then have "distinct ?s" by simp
  with inj have d: "distinct (stable_argsort vs)"
    by (simp add: stable_argsort_def distinct_map)
  have m: "map snd ?z = [0..<length vs]" by (rule map_snd_zip) simp
  have "set (stable_argsort vs) = snd ` set ?z" by (simp add: stable_argsort_def)
  also have "\<dots> = set (map snd ?z)" by (simp only: set_map)
  also have "\<dots> = set [0..<length vs]" by (simp only: m)
  also have "\<dots> = {..<length vs}" by (simp add: atLeast0LessThan)
  finally have s: "set (stable_argsort vs) = {..<length vs}" .
  have "map (\<lambda>i. vs ! i) (stable_argsort vs) = map (\<lambda>p. vs ! snd p) ?s"
    by (simp add: stable_argsort_def comp_def)
  also have "\<dots> = map fst ?s"
    by (rule map_cong [OF refl]) (use pair in simp)
  finally have "sorted (map (\<lambda>i. vs ! i) (stable_argsort vs))"
    by (simp only: sorted_sort_key)
  with d s show ?thesis by (simp add: sorts_def permutes_def)
qed

lemma example_argsort_sorts: "argsort_sorts example_library"
  by (simp add: argsort_sorts_def example_library_def stable_argsort_sorts)

lemma add_up_sort_values_desc:
  assumes "sorts (map snd (rev xs)) (argsort L (map snd (rev xs)))"
  shows "add_up d (map snd (sort_values_desc L xs)) = add_up d (map snd xs)"
  by (simp add: add_up_map sort_values_desc_sorts(4) [OF assms])

section \<open>Facts about the example tables\<close>

lemma one_missing_filtered:
  "resolve example_library one_missing_upload = Inr one_missing"
  "apply_filters no_choice one_missing = Inr one_missing"
  by code_simp+

lemma unlabelled_filtered:
  "resolve example_library unlabelled_upload = Inr unlabelled"
  "apply_filters no_choice unlabelled = Inr unlabelled"
  by code_simp+

lemma tied_filtered:
  "resolve example_library tied_upload = Inr tied"
  "apply_filters no_choice tied = Inr tied"
  by code_simp+

lemma one_missing_kpis:
  "compute_kpis example_library one_missing
     = Inr \<lparr>total_sales = 10, avg_sales = Some 10, num_transactions = 2\<rparr>"
  by code_simp

lemma orders_kpis:
  "compute_kpis example_library orders
     = Inr \<lparr>total_sales = 180, avg_sales = Some 60, num_transactions = 3\<rparr>"
  by code_simp

lemma orders_amounts:
  "length (present (get_col ''sales_amount'' orders)) = length (rows orders)"
  "float_sum example_library (map amount (get_col ''sales_amount'' orders)) = 180"
  "dtype_of ''sales_amount'' orders = Int64"
  by code_simp+

lemma unlabelled_kpis:
  "compute_kpis example_library unlabelled
     = Inr \<lparr>total_sales = 12, avg_sales = Some 6, num_transactions = 2\<rparr>"
  by code_simp

lemma unlabelled_by_product:
  "sales_by example_library ''productline'' unlabelled = [(Str ''A'', 7)]"
  "dtype_of ''sales_amount'' unlabelled = Int64"
  "add_up Int64 [7] = 7"
  by code_simp+

lemma orders_keys_present:
  "\<forall>r \<in> set (rows orders). notna (cell_at (columns orders) ''productline'' r)"
  by code_simp

lemma orders_by_product:
  "sales_by example_library ''productline'' orders = [(Str ''A'', 130), (Str ''B'', 50)]"
  "add_up Int64 [130, 50] = 180"
  by code_simp+

lemma tied_by_product:
  "sales_by example_library ''productline'' tied = [(Str ''C'', 30), (Str ''A'', 10), (Str ''B'', 10)]"
  by code_simp

lemma tied_swapped_groups:
  "get_col ''productline'' tied_swapped = [Str ''A'', Str ''B'', Str ''C'']"
  "groupby_sum example_library ''productline'' tied_swapped = groupby_sum example_library ''productline'' tied"
  by code_simp+

section \<open>Missing amount column\<close>

text \<open>
  Claim C1. For every input table whose normalized (trimmed, lowercased) column names
  contain neither \<^verbatim>\<open>sales\<close> nor \<^verbatim>\<open>revenue\<close>, resolution fails with
  \<open>MissingAmountError\<close> and no aggregates are produced: the run of a table that gets
  to resolution (one that is not empty) ends in that failure, and no run of such a table
  ends with aggregates. The names are normalized by the two string methods of Python,
  whatever they return.
\<close>

theorem resolve_missing_amount:
  assumes "''sales'' \<notin> set (map (normalize_label L) (columns df))"
    and "''revenue'' \<notin> set (map (normalize_label L) (columns df))"
  shows "resolve L df = Inl MissingAmountError \<and>
         (\<not> empty_df df \<longrightarrow> run L spec (Some df) = Failed MissingAmountError) \<and>
         (\<forall>res. run L spec (Some df) \<noteq> Aggregated res)"
proof -
  have r: "resolve L df = Inl MissingAmountError"
    using assms by (simp add: resolve_def normalize_columns_def Let_def)
  then show ?thesis by (simp add: run_def)
qed

theorem resolve_missing_amount_witness:
  "''sales'' \<notin> set (map (normalize_label example_library) (columns no_amount)) \<and>
   ''revenue'' \<notin> set (map (normalize_label example_library) (columns no_amount)) \<and>
   \<not> empty_df no_amount \<and>
   resolve example_library no_amount = Inl MissingAmountError \<and>
   run example_library only_shipped (Some no_amount) = Failed MissingAmountError"
  using resolve_missing_amount [OF no_amount_hyps(1,2), of only_shipped] no_amount_hyps
  by simp

section \<open>Filtering\<close>

text \<open>
  Claim C5. For every resolved table and every state of the filters, applying the
  filters a second time with the same state gives what applying them once gives: the
  same table, or the same exception.
\<close>

theorem apply_filters_idempotent:
  "(case apply_filters spec df of Inl e \<Rightarrow> Inl e | Inr df' \<Rightarrow> apply_filters spec df') = apply_filters spec df"
proof (cases "apply_filters spec df")
  case (Inl e)
  then show ?thesis by simp
next
  case (Inr df')
  from Inr obtain d1 d2 d3 where
    s1: "category_block (product_column df) (product_filter spec) df = Inr d1" and
    s2: "category_block (region_column df) (region_filter spec) d1 = Inr d2" and
    s3: "status_block (status_filter spec) d2 = Inr d3" and
    s4: "year_block (year_filter spec) d3 = Inr df'"
    by (rule apply_filters_stages)
  note i1 = s1 [unfolded category_block_iff] and i2 = s2 [unfolded category_block_iff]
    and i3 = s3 [unfolded status_block_iff] and i4 = s4 [unfolded year_block_iff]
  note ok = apply_filters_Inr [OF Inr]
  have all: "\<forall>r \<in> set (rows df'). keeps spec df r" by (simp add: ok(3))
  have pc: "product_column df' = product_column df" by (rule product_column_cong [OF ok(1)])
  have rc: "region_column df' = region_column df" by (rule region_column_cong [OF ok(1)])
  have sub3: "set (rows df') \<subseteq> set (rows d3)" using i4 by auto
  have sub2: "set (rows df') \<subseteq> set (rows d2)" using sub3 i3 by auto
  have sub1: "set (rows df') \<subseteq> set (rows d1)" using sub2 i2 by auto
  have sub0: "set (rows df') \<subseteq> set (rows df)" using sub1 i1 by auto
  have c1: "columns d1 = columns df" and c2: "columns d2 = columns df" and c3: "columns d3 = columns df"
    using i1 i2 i3 by simp_all
  have t1: "dtypes d1 = dtypes df" and t2: "dtypes d2 = dtypes df" and t3: "dtypes d3 = dtypes df"
    using i1 i2 i3 by simp_all
  have o1: "block_ok (product_column df) df'"
    by (rule block_ok_mono [OF _ _ sub0]) (use i1 ok in simp_all)
  have o2: "block_ok (region_column df) df'"
    by (rule block_ok_mono [OF _ _ sub1]) (use i2 ok c1 t1 in simp_all)
  have o3: "status_ok df'"
    by (rule status_ok_mono [OF _ _ sub2]) (use i3 ok c2 t2 in simp_all)
  have o4: "year_ok df'"
    by (rule year_ok_mono [OF _ _ sub3]) (use i4 ok c3 t3 in simp_all)
  have f1: "category_block (product_column df) (product_filter spec) df' = Inr df'"
    unfolding category_block_iff using o1 all by (simp add: keeps_def ok(1))
  have f2: "category_block (region_column df) (region_filter spec) df' = Inr df'"
    unfolding category_block_iff using o2 all by (simp add: keeps_def ok(1))
  have f3: "status_block (status_filter spec) df' = Inr df'"
    unfolding status_block_iff using o3 all by (simp add: keeps_def ok(1))
  have f4: "year_block (year_filter spec) df' = Inr df'"
    unfolding year_block_iff using o4 all by (simp add: keeps_def ok(1))
  have "apply_filters spec df' = Inr df'"
    by (simp add: apply_filters_def pc rc f1 f2 f3 f4)
  with Inr show ?thesis by simp
qed

theorem apply_filters_idempotent_witness:
  "apply_filters only_shipped shipped_orders = Inr shipped_orders"
  using apply_filters_idempotent [of only_shipped orders] by (simp add: apply_only_shipped)

text \<open>
  Claim C10. The filtered table has the header of the resolved table and its rows are
  a subsequence of the rows of the resolved table: filtering only removes rows and
  keeps the order of those that remain.
\<close>

theorem filtered_is_subseq:
  "apply_filters spec df = Inr df' \<Longrightarrow> columns df' = columns df \<and> subseq (rows df') (rows df)"
  using apply_filters_Inr [of spec df df'] by simp

theorem filtered_is_subseq_witness:
  "apply_filters only_shipped orders = Inr shipped_orders \<and>
   columns shipped_orders = columns orders \<and> subseq (rows shipped_orders) (rows orders)"
  using filtered_is_subseq [OF apply_only_shipped] apply_only_shipped by simp

section \<open>The date trend\<close>



section \<open>Aggregates of a table without rows\<close>




section \<open>The KPIs\<close>

text \<open>
  Claim C2, as amended. For every filtered table with a numeric amount column, the count
  is the number of rows, and the mean is the float64 sum of the amounts divided by the
  number of rows whose amount is present, not by the count; it is absent when no amount
  is present. The total is that float64 sum for a float64 column and the int64 sum, which
  wraps around, for an int64 column. The mean is the total divided by the count when no
  amount is missing and the total is the float64 sum of the amounts: on every float64
  column without a missing amount, and on an int64 column as long as the sum of the
  whole numbers neither wraps around nor is rounded as a float64.
\<close>

theorem mean_skips_missing:
  assumes "compute_kpis L df = Inr k"
  shows "num_transactions k = length (rows df) \<and>
         avg_sales k =
           (if present (get_col ''sales_amount'' df) = [] then None
            else Some (float_div L (float_sum L (map amount (get_col ''sales_amount'' df)))
                         (of_nat (length (present (get_col ''sales_amount'' df)))))) \<and>
         (dtype_of ''sales_amount'' df = Int64 \<longrightarrow>
            total_sales k = int_sum (get_col ''sales_amount'' df)) \<and>
         (dtype_of ''sales_amount'' df = Float64 \<longrightarrow> rows df \<noteq> [] \<longrightarrow>
            total_sales k = float_sum L (map amount (get_col ''sales_amount'' df))) \<and>
         (length (present (get_col ''sales_amount'' df)) = length (rows df) \<and>
          float_sum L (map amount (get_col ''sales_amount'' df)) = total_sales k \<longrightarrow>
            avg_sales k = claimed_mean L k)"
proof -
  let ?a = "get_col ''sales_amount'' df"
  note k = compute_kpis_Inr [OF assms]
  have len: "length ?a = length (rows df)" by (simp add: get_col_def)
  have "avg_sales k = claimed_mean L k"
    if "length (present ?a) = length (rows df)" "float_sum L (map amount ?a) = total_sales k"
    using that by (auto simp: k(2,3) claimed_mean_def series_mean_def)
  moreover have "total_sales k = float_sum L (map amount ?a)"
    if "dtype_of ''sales_amount'' df = Float64" "rows df \<noteq> []"
    using that len by (auto simp: k(1) series_sum_def)
  moreover have "total_sales k = int_sum ?a" if "dtype_of ''sales_amount'' df = Int64"
    using that by (simp add: k(1) series_sum_def)
  ultimately show ?thesis
    by (simp add: k(2,3) series_mean_def)
qed

theorem mean_skips_missing_witness:
  "compute_kpis example_library orders
     = Inr \<lparr>total_sales = 180, avg_sales = Some 60, num_transactions = 3\<rparr> \<and>
   dtype_of ''sales_amount'' orders = Int64 \<and>
   length (present (get_col ''sales_amount'' orders)) = length (rows orders) \<and>
   float_sum example_library (map amount (get_col ''sales_amount'' orders)) = 180 \<and>
   Some 60 = claimed_mean example_library \<lparr>total_sales = 180, avg_sales = Some 60, num_transactions = 3\<rparr>"
  using mean_skips_missing [OF orders_kpis] orders_amounts orders_kpis
  by (simp add: claimed_mean_def example_library_def)

text \<open>
  Claim C2 as it is written fails on a table with a missing amount: an upload of two
  rows with amounts 10 and missing, all filters at their default, gives total 10,
  count 2 and mean 10, not 5.
\<close>

theorem mean_counterexample:
  "resolve example_library one_missing_upload = Inr one_missing \<and>
   apply_filters no_choice one_missing = Inr one_missing \<and>
   compute_kpis example_library one_missing
     = Inr \<lparr>total_sales = 10, avg_sales = Some 10, num_transactions = 2\<rparr> \<and>
   claimed_mean example_library \<lparr>total_sales = 10, avg_sales = Some 10, num_transactions = 2\<rparr> = Some 5 \<and>
   avg_sales \<lparr>total_sales = 10, avg_sales = Some 10, num_transactions = 2\<rparr>
     \<noteq> claimed_mean example_library \<lparr>total_sales = 10, avg_sales = Some 10, num_transactions = 2\<rparr>"
  using one_missing_kpis one_missing_filtered
  by (simp add: claimed_mean_def example_library_def)

section \<open>The category series\<close>

text \<open>
  Claim C3, as amended. For every filtered table with a numeric amount column and every
  grouping column, the sums of the groups add up to the sum of the amounts of the rows
  whose grouping value is present (\<^verbatim>\<open>groupby\<close> leaves the rows with a missing key out),
  and so to the total when no row has a missing grouping value. The sums are those of
  the column: for an int64 column the equalities hold modulo \<open>2 ^ 64\<close>, every sum
  wrapping around; for a float64 column they hold where the float64 sums of the groups,
  and for the total the float64 sum of the column, are not rounded. The sort of the
  series, which keeps every group, does not change what its sums add up to.
\<close>

theorem group_sums_add_up:
  assumes "compute_kpis L df = Inr k"
    and "dtype_of ''sales_amount'' df = Int64 \<or> exact_groups L n df"
  shows "add_up (dtype_of ''sales_amount'' df) (map snd (groupby_sum L n df)) =
           add_up (dtype_of ''sales_amount'' df)
             (map amount (map (cell_at (columns df) ''sales_amount'')
                (filter (\<lambda>r. notna (cell_at (columns df) n r)) (rows df)))) \<and>
         (argsort_sorts L \<longrightarrow>
            add_up (dtype_of ''sales_amount'' df) (map snd (sales_by L n df)) =
              add_up (dtype_of ''sales_amount'' df) (map snd (groupby_sum L n df))) \<and>
         ((\<forall>r \<in> set (rows df). notna (cell_at (columns df) n r)) \<and>
          (dtype_of ''sales_amount'' df = Int64 \<or>
           float_sum L (map amount (get_col ''sales_amount'' df))
             = sum_list (map amount (get_col ''sales_amount'' df))) \<longrightarrow>
            total_sales k = add_up (dtype_of ''sales_amount'' df) (map snd (groupby_sum L n df)))"
proof -
  let ?d = "dtype_of ''sales_amount'' df" and ?a = "get_col ''sales_amount'' df"
  note k = compute_kpis_Inr [OF assms(1)]
  note g = groupby_sum_add_up [OF assms(2)]
  have s: "add_up ?d (map snd (sales_by L n df)) = add_up ?d (map snd (groupby_sum L n df))"
    if "argsort_sorts L"
    unfolding sales_by_def
    by (rule add_up_sort_values_desc) (use that in \<open>simp add: argsort_sorts_def\<close>)
  have t: "total_sales k = add_up ?d (map snd (groupby_sum L n df))"
    if all: "\<forall>r \<in> set (rows df). notna (cell_at (columns df) n r)"
      and e: "?d = Int64 \<or> float_sum L (map amount ?a) = sum_list (map amount ?a)"
  proof -
    have "filter (\<lambda>r. notna (cell_at (columns df) n r)) (rows df) = rows df"
      using all by (intro filter_True) simp
    with g have g': "add_up ?d (map snd (groupby_sum L n df)) = add_up ?d (map amount ?a)"
      by (simp add: get_col_def)
    show ?thesis
    proof (cases "?d = Int64")
      case True
      with g' show ?thesis by (simp add: k(1) series_sum_def add_up_amounts)
    next
      case False
      with e have "float_sum L (map amount ?a) = sum_list (map amount ?a)" by simp
      with False g' show ?thesis by (auto simp: k(1) series_sum_def add_up_def)
    qed
  qed
  from g s t show ?thesis by blast
qed

theorem group_sums_add_up_witness:
  "compute_kpis example_library orders
     = Inr \<lparr>total_sales = 180, avg_sales = Some 60, num_transactions = 3\<rparr> \<and>
   dtype_of ''sales_amount'' orders = Int64 \<and> argsort_sorts example_library \<and>
   list_all (\<lambda>r. notna (cell_at (columns orders) ''productline'' r)) (rows orders) \<and>
   sales_by example_library ''productline'' orders = [(Str ''A'', 130), (Str ''B'', 50)] \<and>
   total_sales \<lparr>total_sales = 180, avg_sales = Some 60, num_transactions = 3\<rparr>
     = add_up Int64 (map snd (sales_by example_library ''productline'' orders))"
proof -
  note h = orders_keys_present
  have d: "dtype_of ''sales_amount'' orders = Int64 \<or> exact_groups example_library ''productline'' orders"
    by (simp add: orders_amounts(3))
  from group_sums_add_up [OF orders_kpis d] h example_argsort_sorts
  have "total_sales \<lparr>total_sales = 180, avg_sales = Some 60, num_transactions = 3\<rparr>
     = add_up Int64 (map snd (sales_by example_library ''productline'' orders))"
    by (simp add: orders_amounts(3))
  with h orders_kpis orders_by_product orders_amounts(3) example_argsort_sorts show ?thesis
    by (simp add: list_all_iff)
qed

text \<open>
  Claim C3 as it is written fails on a table with a missing product: the rows
  (missing, 5) and (A, 7) have total 12, and the only group is A with sum 7.
\<close>

theorem group_sums_counterexample:
  "resolve example_library unlabelled_upload = Inr unlabelled \<and>
   apply_filters no_choice unlabelled = Inr unlabelled \<and>
   rows unlabelled \<noteq> [] \<and> product_column unlabelled = Some ''productline'' \<and>
   compute_kpis example_library unlabelled
     = Inr \<lparr>total_sales = 12, avg_sales = Some 6, num_transactions = 2\<rparr> \<and>
   sales_by example_library ''productline'' unlabelled = [(Str ''A'', 7)] \<and>
   total_sales \<lparr>total_sales = 12, avg_sales = Some 6, num_transactions = 2\<rparr>
     \<noteq> add_up (dtype_of ''sales_amount'' unlabelled)
         (map snd (sales_by example_library ''productline'' unlabelled))"
proof -
  have "rows unlabelled \<noteq> []" "product_column unlabelled = Some ''productline''"
    by code_simp+
  then show ?thesis by (simp add: unlabelled_kpis unlabelled_by_product unlabelled_filtered)
qed

text \<open>
  Claim C6, as amended. For every filtered table and every grouping column, the series
  holds every group once and is in descending order of summed amount. The order of
  groups with equal sums is the one the sort of numpy leaves them in, not the order of
  first appearance: the sort is handed the sums in ascending order of the group keys,
  whatever the order of the rows.
\<close>

theorem sales_by_order:
  assumes "argsort_sorts L"
  shows "sorted_wrt (\<lambda>a b. snd b \<le> snd a) (sales_by L n df) \<and>
         set (sales_by L n df) = set (groupby_sum L n df) \<and>
         distinct (map fst (sales_by L n df))"
proof -
  have s: "sorts (map snd (rev (groupby_sum L n df))) (argsort L (map snd (rev (groupby_sum L n df))))"
    using assms by (simp add: argsort_sorts_def)
  note r = sort_values_desc_sorts [OF s]
  from r(1) r(2) r(3) [of fst, OF groupby_sum_distinct] show ?thesis
    by (simp add: sales_by_def)
qed

theorem sales_by_order_witness:
  "argsort_sorts example_library \<and>
   sales_by example_library ''productline'' tied = [(Str ''C'', 30), (Str ''A'', 10), (Str ''B'', 10)] \<and>
   sorted_wrt (\<lambda>a b. snd b \<le> snd a) [(Str ''C'', 30 :: rat), (Str ''A'', 10), (Str ''B'', 10)]"
  using sales_by_order [OF example_argsort_sorts, of "''productline''" tied] example_argsort_sorts
  by (simp only: tied_by_product simp_thms)

text \<open>
  Claim C6 as it is written fails where a later key is smaller: with B before A in the
  table and equal sums, the series has A before B. The table with the two rows
  exchanged has the same groups before the sort, hence the same series: whatever order
  a sort leaves equal sums in, one of the two tables has them against the order of first
  appearance.
\<close>

theorem first_seen_counterexample:
  "resolve example_library tied_upload = Inr tied \<and> apply_filters no_choice tied = Inr tied \<and>
   product_column tied = Some ''productline'' \<and>
   get_col ''productline'' tied = [Str ''B'', Str ''A'', Str ''C''] \<and>
   sales_by example_library ''productline'' tied = [(Str ''C'', 30), (Str ''A'', 10), (Str ''B'', 10)] \<and>
   \<not> claimed_tie_order (get_col ''productline'' tied) (sales_by example_library ''productline'' tied) \<and>
   get_col ''productline'' tied_swapped = [Str ''A'', Str ''B'', Str ''C''] \<and>
   groupby_sum example_library ''productline'' tied_swapped = groupby_sum example_library ''productline'' tied"
proof -
  have "get_col ''productline'' tied = [Str ''B'', Str ''A'', Str ''C'']"
    by code_simp
  moreover have "\<not> claimed_tie_order [Str ''B'', Str ''A'', Str ''C'']
       [(Str ''C'', 30), (Str ''A'', 10), (Str ''B'', 10)]"
    by (simp add: claimed_tie_order_def)
  moreover have "product_column tied = Some ''productline''"
    by code_simp
  ultimately show ?thesis by (simp add: tied_by_product tied_filtered tied_swapped_groups)
qed

end
